theory Spec2Isabelle
  imports Main "HOL-Library.Sublist"
begin

section \<open>ts-strictify: change-set resolution and diagnostic correlation\<close>

text \<open>
  A shallow embedding of \<^verbatim>\<open>src/main.ts\<close>. Every asynchronous function of the source
  becomes a function from the environment (the answers of git and of the compiler) to a
  pair: the events the call produces, in order, and its value. A rejected promise that
  the source catches is a branch of the model; one it does not catch is the \<open>Inl\<close> of
  the result. JavaScript strings are lists of characters, compared and searched
  character by character.

  The environment answers a query the same way each time it is asked within one run.
  Queries that the source starts together (\<^verbatim>\<open>Promise.all\<close>) are listed in the order
  in which the source starts them; no theorem below depends on that order, only on
  which events occur and on the order of the callbacks, which the source fixes.
\<close>

subsection \<open>The environment\<close>

text \<open>One entry of simple-git's diff summary; the source reads its \<^verbatim>\<open>file\<close> field,
  named \<open>file_of\<close> here.\<close>

record diff_entry =
  file_of :: string

text \<open>
  Why a process promise was rejected is a fact of the process: the compiler reported
  diagnostics, or something else went wrong (the binary is absent, it crashed).
  The caught error object is read for its \<^verbatim>\<open>all\<close> property only, which holds the
  combined output when the library captured one.
\<close>

datatype rejection_reason = DiagnosticsReported | OtherFailure

record execa_error =
  reason :: rejection_reason
  all_output :: "string option"

datatype execa_result = Resolved | Rejected execa_error

text \<open>An argument handed to the compiler: a flag name, or the boolean of an option.\<close>

datatype tsc_arg = Str string | Bool bool

text \<open>\<^verbatim>\<open>Object.entries(options)\<close>: the option names with their values, in order.\<close>

type_synonym TypeScriptOptions = "(string \<times> bool) list"

record env =
  git_merge_base_fork_point :: "string \<Rightarrow> string \<Rightarrow> string option"
  git_status :: "(string list \<times> string list \<times> string list) option"
  git_diffSummary :: "string \<Rightarrow> string \<Rightarrow> diff_entry list option"
  tsc :: "tsc_arg list \<Rightarrow> execa_result"

text \<open>
  \<open>git_merge_base_fork_point e targetBranch branch\<close> is the standard output of
  \<^verbatim>\<open>git merge-base --fork-point targetBranch branch\<close>, \<open>None\<close> when the command fails.
  \<open>git_status\<close> holds the created, modified and not-added paths, \<open>None\<close> when the
  query fails; \<open>git_diffSummary e base child\<close> likewise.
\<close>

datatype event =
    Exec_git_merge_base string string
  | Git_status
  | Git_diffSummary string string
  | Exec_tsc "tsc_arg list"
  | Console_warn
  | Console_error
  | Console_log string
  | OnFoundSinceRevision "string option"
  | OnFoundChangedFiles "string list"
  | OnCheckFile string bool

datatype js_error =
    Reduce_of_empty_array_with_no_initial_value
  | Cannot_read_property_split_of_undefined

text \<open>
  The result of a run. \<^verbatim>\<open>errors\<close> counts matching lines; it is a natural number
  here, which a JavaScript number holds exactly for every count a run can reach.
\<close>

record StrictifyResult =
  success :: bool
  errors :: nat

subsection \<open>JavaScript library functions used by the source\<close>

text \<open>
  \<^verbatim>\<open>/\.tsx?$/\<close> matched at one start position: a dot, \<^verbatim>\<open>ts\<close>, an optional
  \<^verbatim>\<open>x\<close>, then the end of the input.
\<close>

definition regex_dot_tsx_end_here :: "string \<Rightarrow> bool" where
  "regex_dot_tsx_end_here s = (s = ''.ts'' \<or> s = ''.tsx'')"

text \<open>\<^verbatim>\<open>String.prototype.includes\<close>: the search string occurs at some position.\<close>

fun includes_str :: "string \<Rightarrow> string \<Rightarrow> bool" where
  "includes_str [] fileName = (fileName = [])"
| "includes_str (c # cs) fileName = (prefix fileName (c # cs) \<or> includes_str cs fileName)"

text \<open>
  \<^verbatim>\<open>String.prototype.split\<close> with a one-character separator: the pieces between
  the separators; the empty string gives one empty piece. The result is never
  empty, so the last case of the definition is never taken.
\<close>

fun split :: "char \<Rightarrow> string \<Rightarrow> string list" where
  "split sep [] = [[]]"
| "split sep (c # cs) =
     (if c = sep then [] # split sep cs
      else (case split sep cs of
              piece # pieces \<Rightarrow> (c # piece) # pieces
            | [] \<Rightarrow> [[c]]))"

definition newline :: char where
  "newline = CHR 0x0A"

text \<open>
  \<^verbatim>\<open>Array.from(new Set(xs))\<close>: a set keeps each element once, at the place of
  its first insertion.
\<close>

definition Set_add :: "'a list \<Rightarrow> 'a \<Rightarrow> 'a list" where
  "Set_add s x = (if x \<in> set s then s else s @ [x])"

definition Array_from_new_Set :: "'a list \<Rightarrow> 'a list" where
  "Array_from_new_Set xs = foldl Set_add [] xs"

text \<open>
  \<^verbatim>\<open>Array.prototype.reduce\<close> called without an initial value: the first element
  is the initial accumulator, and an empty array raises a TypeError.
\<close>

fun reduce_without_initial_value :: "('a \<Rightarrow> 'a \<Rightarrow> 'a) \<Rightarrow> 'a list \<Rightarrow> js_error + 'a" where
  "reduce_without_initial_value f [] = Inl Reduce_of_empty_array_with_no_initial_value"
| "reduce_without_initial_value f (x # xs) = Inr (foldl f x xs)"

subsection \<open>The functions of main.ts\<close>

definition isSupportedExtension :: "string \<Rightarrow> bool" where
  "isSupportedExtension fileName = list_ex regex_dot_tsx_end_here (suffixes fileName)"

definition findCommitAtWhichBranchForkedFromTargetBranch ::
  "env \<Rightarrow> string \<Rightarrow> string \<Rightarrow> event list \<times> string option" where
  "findCommitAtWhichBranchForkedFromTargetBranch e branch targetBranch =
     ([Exec_git_merge_base targetBranch branch],
      git_merge_base_fork_point e targetBranch branch)"

definition findCommitAtWhichTheCurrentBranchForkedFromTargetBranch ::
  "env \<Rightarrow> string \<Rightarrow> event list \<times> string option" where
  "findCommitAtWhichTheCurrentBranchForkedFromTargetBranch e targetBranch =
     findCommitAtWhichBranchForkedFromTargetBranch e ''HEAD'' targetBranch"

definition findModifiedAndUntrackedFiles :: "env \<Rightarrow> event list \<times> string list" where
  "findModifiedAndUntrackedFiles e =
     (case git_status e of
        Some (created, modified, not_added) \<Rightarrow> ([Git_status], created @ modified @ not_added)
      | None \<Rightarrow> ([Git_status, Console_warn], []))"

definition findFilesFromDiffToRevision ::
  "env \<Rightarrow> string option \<Rightarrow> string \<Rightarrow> event list \<times> string list" where
  "findFilesFromDiffToRevision e baseRevision childRevision =
     (case baseRevision of
        None \<Rightarrow> ([], [])
      | Some base \<Rightarrow>
          (case git_diffSummary e base childRevision of
             Some files \<Rightarrow>
               ([Git_diffSummary base childRevision],
                foldl (\<lambda>result entry. result @ [file_of entry]) [] files)
           | None \<Rightarrow> ([Git_diffSummary base childRevision, Console_error], [])))"

definition tsc_args :: "TypeScriptOptions \<Rightarrow> tsc_arg list" where
  "tsc_args options =
     foldl (\<lambda>result (key, value). result @ [Str key, Bool value]) []
       (map (\<lambda>(key, value). (''--'' @ key, value)) options)"

definition getTypeScriptCompileOutput ::
  "env \<Rightarrow> TypeScriptOptions \<Rightarrow> event list \<times> (js_error + string list)" where
  "getTypeScriptCompileOutput e options =
     (let args = tsc_args options in
      case tsc e args of
        Resolved \<Rightarrow> ([Exec_tsc args], Inr [])
      | Rejected error \<Rightarrow>
          (case all_output error of
             Some all \<Rightarrow> ([Exec_tsc args], Inr (split newline all))
           | None \<Rightarrow> ([Exec_tsc args], Inl Cannot_read_property_split_of_undefined)))"

text \<open>
  Lines 100 to 108: one fork-point query and one diff per branch to ignore, then the
  per-branch lists concatenated by a \<^verbatim>\<open>reduce\<close> that has no initial value.
\<close>

definition filesChangedOnBranch :: "env \<Rightarrow> string \<Rightarrow> string \<Rightarrow> event list \<times> string list" where
  "filesChangedOnBranch e targetBranch branchWithChangesToIgnore =
     (let (ev1, baseCommit) =
            findCommitAtWhichBranchForkedFromTargetBranch e branchWithChangesToIgnore targetBranch;
          (ev2, files) = findFilesFromDiffToRevision e baseCommit branchWithChangesToIgnore
      in (ev1 @ ev2, files))"

definition excludedFiles :: "env \<Rightarrow> string \<Rightarrow> string list \<Rightarrow> event list \<times> (js_error + string list)" where
  "excludedFiles e targetBranch ignoreBranches =
     (let results = map (filesChangedOnBranch e targetBranch) ignoreBranches
      in (concat (map fst results),
          reduce_without_initial_value (\<lambda>accumulator currentValue. accumulator @ currentValue)
            (map snd results)))"

text \<open>Lines 110 to 113: the working-tree files and the diff to HEAD, each path once, filtered.\<close>

definition changedFiles :: "env \<Rightarrow> string option \<Rightarrow> event list \<times> string list" where
  "changedFiles e commit =
     (let (ev1, a) = findModifiedAndUntrackedFiles e;
          (ev2, b) = findFilesFromDiffToRevision e commit ''HEAD''
      in (ev1 @ ev2, filter isSupportedExtension (Array_from_new_Set (a @ b))))"

text \<open>Lines 120 to 122.\<close>

definition includedChangedFiles :: "string list \<Rightarrow> string list \<Rightarrow> string list" where
  "includedChangedFiles changed excluded = filter (\<lambda>f. f \<notin> set excluded) changed"

text \<open>
  Lines 126 to 138. The body of the inner \<^verbatim>\<open>map\<close> updates the running total, the
  count of this file and the events; the body of the \<^verbatim>\<open>reduce\<close> runs it over every
  line with the file's count starting at 0, then reports a file that matched nothing.
\<close>

definition checkLine :: "string \<Rightarrow> nat \<times> nat \<times> event list \<Rightarrow> string \<Rightarrow> nat \<times> nat \<times> event list" where
  "checkLine fileName st line =
     (case st of (totalErrorCount, errorCount, evs) \<Rightarrow>
        if includes_str line fileName
        then (totalErrorCount + 1, errorCount + 1,
              evs @ (if errorCount = 0 then [OnCheckFile fileName True] else []) @ [Console_log line])
        else (totalErrorCount, errorCount, evs))"

definition checkFile :: "string list \<Rightarrow> nat \<times> event list \<Rightarrow> string \<Rightarrow> nat \<times> event list" where
  "checkFile tscOut st fileName =
     (case st of (totalErrorCount, evs) \<Rightarrow>
        (case foldl (checkLine fileName) (totalErrorCount, 0, evs) tscOut of
           (totalErrorCount', errorCount, evs') \<Rightarrow>
             (totalErrorCount',
              evs' @ (if errorCount = 0 then [OnCheckFile fileName False] else []))))"

definition correlate :: "string list \<Rightarrow> string list \<Rightarrow> nat \<times> event list" where
  "correlate included tscOut = foldl (checkFile tscOut) (0, []) included"

text \<open>
  The arguments of the entrypoint. Its callbacks are not fields: a call of
  \<^verbatim>\<open>onFoundSinceRevision\<close>, \<^verbatim>\<open>onFoundChangedFiles\<close> or \<^verbatim>\<open>onCheckFile\<close> is an event
  of the run, and \<^verbatim>\<open>onExamineFile\<close> is never called by the source.
\<close>

record Args =
  typeScriptOptions :: TypeScriptOptions
  targetBranch :: string
  ignoreFilesChangedOnBranch :: "string list"

definition strictify :: "env \<Rightarrow> Args \<Rightarrow> event list \<times> (js_error + StrictifyResult)" where
  "strictify e args =
     (let (ev1, commit) =
            findCommitAtWhichTheCurrentBranchForkedFromTargetBranch e (targetBranch args);
          ev2 = [OnFoundSinceRevision commit];
          (ev3, excludedOrError) =
            excludedFiles e (targetBranch args) (ignoreFilesChangedOnBranch args)
      in case excludedOrError of
           Inl err \<Rightarrow> (ev1 @ ev2 @ ev3, Inl err)
         | Inr excluded \<Rightarrow>
             (let (ev4, changed) = changedFiles e commit;
                  ev5 = [OnFoundChangedFiles changed]
              in if length changed = 0
                 then (ev1 @ ev2 @ ev3 @ ev4 @ ev5, Inr \<lparr>success = True, errors = 0\<rparr>)
                 else
                   (let included = includedChangedFiles changed excluded;
                        (ev6, tscOut) = getTypeScriptCompileOutput e (typeScriptOptions args)
                    in case tscOut of
                         Inl err \<Rightarrow> (ev1 @ ev2 @ ev3 @ ev4 @ ev5 @ ev6, Inl err)
                       | Inr lines \<Rightarrow>
                           (let (errorCount, ev7) = correlate included lines
                            in (ev1 @ ev2 @ ev3 @ ev4 @ ev5 @ ev6 @ ev7,
                                Inr \<lparr>success = (errorCount = 0), errors = errorCount\<rparr>)))))"

subsection \<open>Observations on a run\<close>

text \<open>The \<^verbatim>\<open>onCheckFile\<close> calls of a trace, in order, and the number of compiler runs.\<close>

fun onCheckFile_calls :: "event list \<Rightarrow> (string \<times> bool) list" where
  "onCheckFile_calls [] = []"
| "onCheckFile_calls (OnCheckFile f b # evs) = (f, b) # onCheckFile_calls evs"
| "onCheckFile_calls (_ # evs) = onCheckFile_calls evs"

fun tsc_invocations :: "event list \<Rightarrow> nat" where
  "tsc_invocations [] = 0"
| "tsc_invocations (Exec_tsc a # evs) = Suc (tsc_invocations evs)"
| "tsc_invocations (_ # evs) = tsc_invocations evs"

text \<open>The fork point of the current branch, as line 97 computes it.\<close>

definition forkPointOfHEAD :: "env \<Rightarrow> Args \<Rightarrow> string option" where
  "forkPointOfHEAD e args =
     snd (findCommitAtWhichTheCurrentBranchForkedFromTargetBranch e (targetBranch args))"

subsection \<open>The specification's correlation count\<close>

text \<open>
  In the specification's words: the number of lines that contain the file's path as a
  substring. It is compared below with what the loops of the source compute.
\<close>

definition countFor :: "string \<Rightarrow> string list \<Rightarrow> nat" where
  "countFor file lines = length (filter (\<lambda>line. sublist file line) lines)"

subsection \<open>The events of the loops, written out\<close>

text \<open>
  What the inner loop over the compiler's lines emits for one file, given the file's
  count so far, and what one round of the outer loop emits for a file. The source
  computes these inside \<open>checkLine\<close> and \<open>checkFile\<close>; the lemmas below show it.
\<close>

fun matchEvents :: "string \<Rightarrow> nat \<Rightarrow> string list \<Rightarrow> event list" where
  "matchEvents f c [] = []"
| "matchEvents f c (l # ls) =
     (if includes_str l f
      then (if c = 0 then [OnCheckFile f True] else []) @ [Console_log l] @ matchEvents f (c + 1) ls
      else matchEvents f c ls)"

definition fileEvents :: "string list \<Rightarrow> string \<Rightarrow> event list" where
  "fileEvents ls f = matchEvents f 0 ls @ (if countFor f ls = 0 then [OnCheckFile f False] else [])"

text \<open>The events of a run up to the end of lines 97 to 108.\<close>

definition preamble :: "env \<Rightarrow> Args \<Rightarrow> event list" where
  "preamble e args =
     [Exec_git_merge_base (targetBranch args) ''HEAD'', OnFoundSinceRevision (forkPointOfHEAD e args)]
     @ fst (excludedFiles e (targetBranch args) (ignoreFilesChangedOnBranch args))"

fun onFoundChangedFiles_calls :: "event list \<Rightarrow> string list list" where
  "onFoundChangedFiles_calls [] = []"
| "onFoundChangedFiles_calls (OnFoundChangedFiles fs # evs) = fs # onFoundChangedFiles_calls evs"
| "onFoundChangedFiles_calls (_ # evs) = onFoundChangedFiles_calls evs"

subsection \<open>Example runs\<close>

text \<open>
  A repository in which nothing changed and no fork point is found; one with changes in
  the working tree, on the current branch and on a branch to ignore, whose compiler
  reports three lines; and one whose only change is also a change of the ignored branch.
\<close>

definition env_nothing_changed :: env where
  "env_nothing_changed =
     \<lparr>git_merge_base_fork_point = (\<lambda>targetBranch branch. None),
      git_status = Some ([], [], []),
      git_diffSummary = (\<lambda>base child. None),
      tsc = (\<lambda>args. Resolved)\<rparr>"

definition diagnostics_error :: execa_error where
  "diagnostics_error =
     \<lparr>reason = DiagnosticsReported,
      all_output = Some (''a.ts(3,5): e1'' @ [newline] @ ''l.ts(1,1): e2'' @ [newline] @ ''a.ts(9,1): e3'')\<rparr>"

definition env_example :: env where
  "env_example =
     \<lparr>git_merge_base_fork_point = (\<lambda>targetBranch branch. Some ''abc''),
      git_status = Some ([''n.ts''], [''a.ts'', ''R.md''], [''v.tsx'']),
      git_diffSummary = (\<lambda>base child.
         if child = ''HEAD'' then Some [\<lparr>file_of = ''a.ts''\<rparr>, \<lparr>file_of = ''l.ts''\<rparr>]
         else Some [\<lparr>file_of = ''l.ts''\<rparr>]),
      tsc = (\<lambda>args. Rejected diagnostics_error)\<rparr>"

definition env_all_excluded :: env where
  "env_all_excluded =
     \<lparr>git_merge_base_fork_point = (\<lambda>targetBranch branch. Some ''abc''),
      git_status = Some ([], [''a.ts''], []),
      git_diffSummary = (\<lambda>base child. Some [\<lparr>file_of = ''a.ts''\<rparr>]),
      tsc = (\<lambda>args. Resolved)\<rparr>"

text \<open>
  The compiler failing for a reason other than diagnostics: once with a combined
  output on the error object, once without.
\<close>

definition crash_error :: execa_error where
  "crash_error = \<lparr>reason = OtherFailure, all_output = Some ''Segmentation fault''\<rparr>"

definition no_output_error :: execa_error where
  "no_output_error = \<lparr>reason = OtherFailure, all_output = None\<rparr>"

definition args_example :: Args where
  "args_example =
     \<lparr>typeScriptOptions = [(''noEmit'', True)],
      targetBranch = ''master'',
      ignoreFilesChangedOnBranch = [''feature'']\<rparr>"

definition args_no_ignore :: Args where
  "args_no_ignore = args_example\<lparr>ignoreFilesChangedOnBranch := []\<rparr>"

definition env_tsc_crashed :: env where
  "env_tsc_crashed = env_example\<lparr>tsc := (\<lambda>args. Rejected crash_error)\<rparr>"

definition env_tsc_no_output :: env where
  "env_tsc_no_output = env_example\<lparr>tsc := (\<lambda>args. Rejected no_output_error)\<rparr>"

definition env_all_excluded_tsc_no_output :: env where
  "env_all_excluded_tsc_no_output = env_all_excluded\<lparr>tsc := (\<lambda>args. Rejected no_output_error)\<rparr>"

text \<open>
  Two repositories in which the path of an included file is part of another path: the
  compiler reports a line for \<^verbatim>\<open>lib/a.ts\<close>, which did not change, and one for
  \<^verbatim>\<open>b/a.ts\<close>, which changed on the ignored branch; \<^verbatim>\<open>a.ts\<close> is included in both.
  Each comes with a variant whose compiler reports nothing.
\<close>

definition env_untouched_lib :: env where
  "env_untouched_lib =
     \<lparr>git_merge_base_fork_point = (\<lambda>targetBranch branch. Some ''abc''),
      git_status = Some ([], [''a.ts''], []),
      git_diffSummary = (\<lambda>base child. Some []),
      tsc = (\<lambda>args. Rejected \<lparr>reason = DiagnosticsReported,
                                   all_output = Some ''lib/a.ts(1,1): e''\<rparr>)\<rparr>"

definition env_untouched_lib_silent :: env where
  "env_untouched_lib_silent = env_untouched_lib\<lparr>tsc := (\<lambda>args. Resolved)\<rparr>"

definition env_excluded_sibling :: env where
  "env_excluded_sibling =
     \<lparr>git_merge_base_fork_point = (\<lambda>targetBranch branch. Some ''abc''),
      git_status = Some ([], [''a.ts'', ''b/a.ts''], []),
      git_diffSummary = (\<lambda>base child.
         if child = ''HEAD'' then Some [] else Some [\<lparr>file_of = ''b/a.ts''\<rparr>]),
      tsc = (\<lambda>args. Rejected \<lparr>reason = DiagnosticsReported,
                                   all_output = Some ''b/a.ts(3,5): e''\<rparr>)\<rparr>"

definition env_excluded_sibling_silent :: env where
  "env_excluded_sibling_silent = env_excluded_sibling\<lparr>tsc := (\<lambda>args. Resolved)\<rparr>"

section \<open>Lemmas\<close>

lemma includes_str_sublist: "includes_str line f = sublist f line"
  by (induction line) (auto simp: sublist_Cons_right)

lemma list_ex_suffixes: "list_ex P (suffixes f) = (\<exists>s. suffix s f \<and> P s)"
  by (auto simp: list_ex_iff)

lemma isSupportedExtension_iff: "isSupportedExtension f = (suffix ''.ts'' f \<or> suffix ''.tsx'' f)"
  unfolding isSupportedExtension_def regex_dot_tsx_end_here_def list_ex_suffixes by blast

lemma set_foldl_Set_add: "set (foldl Set_add s xs) = set s \<union> set xs"
  by (induction xs arbitrary: s) (auto simp: Set_add_def)

lemma distinct_foldl_Set_add: "distinct s \<Longrightarrow> distinct (foldl Set_add s xs)"
  by (induction xs arbitrary: s) (auto simp: Set_add_def)

lemma onCheckFile_calls_append:
  "onCheckFile_calls (xs @ ys) = onCheckFile_calls xs @ onCheckFile_calls ys"
  by (induction xs rule: onCheckFile_calls.induct) auto

lemma tsc_invocations_append:
  "tsc_invocations (xs @ ys) = tsc_invocations xs + tsc_invocations ys"
  by (induction xs rule: tsc_invocations.induct) auto

lemma foldl_checkLine:
  "foldl (checkLine f) (t, c, evs) ls =
     (t + countFor f ls, c + countFor f ls, evs @ matchEvents f c ls)"
  by (induction ls arbitrary: t c evs)
     (auto simp: checkLine_def countFor_def includes_str_sublist)

lemma onCheckFile_calls_matchEvents:
  "onCheckFile_calls (matchEvents f c ls) = (if c = 0 \<and> 0 < countFor f ls then [(f, True)] else [])"
  by (induction ls arbitrary: c)
     (auto simp: countFor_def includes_str_sublist onCheckFile_calls_append)

lemma tsc_invocations_matchEvents: "tsc_invocations (matchEvents f c ls) = 0"
  by (induction ls arbitrary: c) (auto simp: tsc_invocations_append)

lemma checkFile_eq:
  "checkFile ls (t, evs) f = (t + countFor f ls, evs @ fileEvents ls f)"
  by (simp add: checkFile_def foldl_checkLine fileEvents_def)

lemma foldl_checkFile:
  "foldl (checkFile ls) (t, evs) fs =
     (t + sum_list (map (\<lambda>f. countFor f ls) fs), evs @ concat (map (fileEvents ls) fs))"
  by (induction fs arbitrary: t evs) (auto simp: checkFile_eq)

lemma onCheckFile_calls_fileEvents:
  "onCheckFile_calls (fileEvents ls f) = [(f, 0 < countFor f ls)]"
  by (auto simp: fileEvents_def onCheckFile_calls_append onCheckFile_calls_matchEvents)

lemma fst_correlate: "fst (correlate fs ls) = sum_list (map (\<lambda>f. countFor f ls) fs)"
  by (simp add: correlate_def foldl_checkFile)

lemma onCheckFile_calls_concat_fileEvents:
  "onCheckFile_calls (concat (map (fileEvents ls) fs)) = map (\<lambda>f. (f, 0 < countFor f ls)) fs"
  by (induction fs) (simp_all add: onCheckFile_calls_append onCheckFile_calls_fileEvents)

lemma tsc_invocations_fileEvents: "tsc_invocations (fileEvents ls f) = 0"
  by (simp add: fileEvents_def tsc_invocations_append tsc_invocations_matchEvents)

lemma tsc_invocations_concat_fileEvents:
  "tsc_invocations (concat (map (fileEvents ls) fs)) = 0"
  by (induction fs) (simp_all add: tsc_invocations_append tsc_invocations_fileEvents)

lemma onCheckFile_calls_correlate:
  "onCheckFile_calls (snd (correlate fs ls)) = map (\<lambda>f. (f, 0 < countFor f ls)) fs"
  by (simp add: correlate_def foldl_checkFile onCheckFile_calls_concat_fileEvents)

lemma tsc_invocations_correlate: "tsc_invocations (snd (correlate fs ls)) = 0"
  by (simp add: correlate_def foldl_checkFile tsc_invocations_concat_fileEvents)

lemma events_filesChangedOnBranch:
  "onCheckFile_calls (fst (filesChangedOnBranch e t b)) = []"
  "tsc_invocations (fst (filesChangedOnBranch e t b)) = 0"
  by (simp_all add: filesChangedOnBranch_def findCommitAtWhichBranchForkedFromTargetBranch_def
        findFilesFromDiffToRevision_def split: option.splits)

lemma events_excludedFiles:
  "onCheckFile_calls (fst (excludedFiles e t bs)) = []"
  "tsc_invocations (fst (excludedFiles e t bs)) = 0"
  by (induction bs)
     (simp_all add: excludedFiles_def onCheckFile_calls_append tsc_invocations_append
        events_filesChangedOnBranch)

lemma events_changedFiles:
  "onCheckFile_calls (fst (changedFiles e c)) = []"
  "tsc_invocations (fst (changedFiles e c)) = 0"
  by (simp_all add: changedFiles_def findModifiedAndUntrackedFiles_def
        findFilesFromDiffToRevision_def split: option.splits prod.splits)

lemma fst_getTypeScriptCompileOutput:
  "fst (getTypeScriptCompileOutput e opts) = [Exec_tsc (tsc_args opts)]"
  by (simp add: getTypeScriptCompileOutput_def Let_def split: execa_result.splits option.splits)

lemma strictify_unfold:
  "strictify e args =
     (case snd (excludedFiles e (targetBranch args) (ignoreFilesChangedOnBranch args)) of
        Inl err \<Rightarrow> (preamble e args, Inl err)
      | Inr excluded \<Rightarrow>
          (let changed = snd (changedFiles e (forkPointOfHEAD e args));
               ev5 = preamble e args @ fst (changedFiles e (forkPointOfHEAD e args))
                       @ [OnFoundChangedFiles changed]
           in if changed = [] then (ev5, Inr \<lparr>success = True, errors = 0\<rparr>)
              else
                (let ev6 = ev5 @ [Exec_tsc (tsc_args (typeScriptOptions args))] in
                 case snd (getTypeScriptCompileOutput e (typeScriptOptions args)) of
                   Inl err \<Rightarrow> (ev6, Inl err)
                 | Inr lines \<Rightarrow>
                     (ev6 @ snd (correlate (includedChangedFiles changed excluded) lines),
                      Inr \<lparr>success = (fst (correlate (includedChangedFiles changed excluded) lines) = 0),
                           errors = fst (correlate (includedChangedFiles changed excluded) lines)\<rparr>))))"
  using fst_getTypeScriptCompileOutput [of e "typeScriptOptions args"]
  by (simp add: strictify_def preamble_def forkPointOfHEAD_def
        findCommitAtWhichTheCurrentBranchForkedFromTargetBranch_def
        findCommitAtWhichBranchForkedFromTargetBranch_def Let_def case_prod_beta
        split: sum.splits)

lemma onFoundChangedFiles_calls_append:
  "onFoundChangedFiles_calls (xs @ ys) = onFoundChangedFiles_calls xs @ onFoundChangedFiles_calls ys"
  by (induction xs rule: onFoundChangedFiles_calls.induct) auto

lemma onFoundChangedFiles_calls_matchEvents: "onFoundChangedFiles_calls (matchEvents f c ls) = []"
  by (induction ls arbitrary: c) (auto simp: onFoundChangedFiles_calls_append)

lemma onFoundChangedFiles_calls_correlate: "onFoundChangedFiles_calls (snd (correlate fs ls)) = []"
proof -
  have "onFoundChangedFiles_calls (concat (map (fileEvents ls) fs)) = []"
    by (induction fs)
       (simp_all add: onFoundChangedFiles_calls_append fileEvents_def
          onFoundChangedFiles_calls_matchEvents)
  then show ?thesis by (simp add: correlate_def foldl_checkFile)
qed

lemma onFoundChangedFiles_calls_filesChangedOnBranch:
  "onFoundChangedFiles_calls (fst (filesChangedOnBranch e t b)) = []"
  by (simp add: filesChangedOnBranch_def findCommitAtWhichBranchForkedFromTargetBranch_def
        findFilesFromDiffToRevision_def split: option.splits)

lemma onFoundChangedFiles_calls_excludedFiles:
  "onFoundChangedFiles_calls (fst (excludedFiles e t bs)) = []"
  by (induction bs)
     (simp_all add: excludedFiles_def onFoundChangedFiles_calls_append
        onFoundChangedFiles_calls_filesChangedOnBranch)

lemma onFoundChangedFiles_calls_changedFiles:
  "onFoundChangedFiles_calls (fst (changedFiles e c)) = []"
  by (simp add: changedFiles_def findModifiedAndUntrackedFiles_def
        findFilesFromDiffToRevision_def split: option.splits prod.splits)

lemma events_preamble:
  "onCheckFile_calls (preamble e args) = []"
  "tsc_invocations (preamble e args) = 0"
  "onFoundChangedFiles_calls (preamble e args) = []"
  by (simp_all add: preamble_def events_excludedFiles onFoundChangedFiles_calls_excludedFiles)

lemma set_changedFiles:
  "set (snd (changedFiles e commit)) =
     {f \<in> set (snd (findModifiedAndUntrackedFiles e))
            \<union> set (snd (findFilesFromDiffToRevision e commit ''HEAD'')).
        isSupportedExtension f}"
  by (auto simp: changedFiles_def Array_from_new_Set_def set_foldl_Set_add case_prod_beta)

lemma distinct_changedFiles: "distinct (snd (changedFiles e commit))"
  by (simp add: changedFiles_def Array_from_new_Set_def distinct_foldl_Set_add case_prod_beta)

lemma set_includedChangedFiles:
  "set (includedChangedFiles changed excluded) = set changed - set excluded"
  by (auto simp: includedChangedFiles_def)

lemma countFor_filter_relevant:
  assumes "f \<in> set fs"
  shows "countFor f (filter (\<lambda>line. \<exists>g\<in>set fs. sublist g line) ls) = countFor f ls"
proof -
  have "filter (\<lambda>line. sublist f line) (filter (\<lambda>line. \<exists>g\<in>set fs. sublist g line) ls)
          = filter (\<lambda>line. sublist f line) ls"
    using assms by (induction ls) auto
  then show ?thesis by (simp add: countFor_def)
qed

lemma split_not_Nil: "split sep s \<noteq> []"
  by (induction s) (auto split: list.splits)

lemma split_unsplit: "concat (map (\<lambda>piece. sep # piece) (split sep s)) = sep # s"
  by (induction s) (auto split: list.splits simp: split_not_Nil)

lemma split_pieces: "piece \<in> set (split sep s) \<Longrightarrow> sep \<notin> set piece"
  by (induction s arbitrary: piece) (auto split: list.splits if_splits)

lemma tsc_update_queries:
  "findFilesFromDiffToRevision (e\<lparr>tsc := t\<rparr>) base child = findFilesFromDiffToRevision e base child"
  "findModifiedAndUntrackedFiles (e\<lparr>tsc := t\<rparr>) = findModifiedAndUntrackedFiles e"
  "findCommitAtWhichBranchForkedFromTargetBranch (e\<lparr>tsc := t\<rparr>) b target =
     findCommitAtWhichBranchForkedFromTargetBranch e b target"
  by (simp_all add: findFilesFromDiffToRevision_def findModifiedAndUntrackedFiles_def
        findCommitAtWhichBranchForkedFromTargetBranch_def split: option.splits)

lemma tsc_update_filesChangedOnBranch:
  "filesChangedOnBranch (e\<lparr>tsc := t\<rparr>) target = filesChangedOnBranch e target"
  by (rule ext) (simp add: filesChangedOnBranch_def tsc_update_queries)

lemma tsc_update_frame:
  "excludedFiles (e\<lparr>tsc := t\<rparr>) target bs = excludedFiles e target bs"
  "changedFiles (e\<lparr>tsc := t\<rparr>) c = changedFiles e c"
  "forkPointOfHEAD (e\<lparr>tsc := t\<rparr>) args = forkPointOfHEAD e args"
  by (simp_all add: excludedFiles_def tsc_update_filesChangedOnBranch changedFiles_def
        forkPointOfHEAD_def findCommitAtWhichTheCurrentBranchForkedFromTargetBranch_def
        tsc_update_queries)

subsection \<open>A run, observed\<close>

lemma countFor_pos_iff: "0 < countFor f ls \<longleftrightarrow> (\<exists>line\<in>set ls. sublist f line)"
  by (simp add: countFor_def filter_empty_conv)

lemma snd_strictify:
  "snd (strictify e args) =
     (case snd (excludedFiles e (targetBranch args) (ignoreFilesChangedOnBranch args)) of
        Inl err \<Rightarrow> Inl err
      | Inr excluded \<Rightarrow>
          if snd (changedFiles e (forkPointOfHEAD e args)) = []
          then Inr \<lparr>success = True, errors = 0\<rparr>
          else
            (case snd (getTypeScriptCompileOutput e (typeScriptOptions args)) of
               Inl err \<Rightarrow> Inl err
             | Inr lines \<Rightarrow>
                 Inr \<lparr>success =
                        ((\<Sum>f\<leftarrow>includedChangedFiles (snd (changedFiles e (forkPointOfHEAD e args))) excluded.
                            countFor f lines) = 0),
                      errors =
                        (\<Sum>f\<leftarrow>includedChangedFiles (snd (changedFiles e (forkPointOfHEAD e args))) excluded.
                            countFor f lines)\<rparr>))"
  by (simp add: strictify_unfold Let_def fst_correlate split: sum.splits)

lemma onCheckFile_calls_strictify:
  "onCheckFile_calls (fst (strictify e args)) =
     (case snd (excludedFiles e (targetBranch args) (ignoreFilesChangedOnBranch args)) of
        Inl err \<Rightarrow> []
      | Inr excluded \<Rightarrow>
          if snd (changedFiles e (forkPointOfHEAD e args)) = [] then []
          else
            (case snd (getTypeScriptCompileOutput e (typeScriptOptions args)) of
               Inl err \<Rightarrow> []
             | Inr lines \<Rightarrow>
                 map (\<lambda>f. (f, 0 < countFor f lines))
                   (includedChangedFiles (snd (changedFiles e (forkPointOfHEAD e args))) excluded)))"
  by (simp add: strictify_unfold Let_def onCheckFile_calls_append events_preamble
        events_changedFiles onCheckFile_calls_correlate split: sum.splits)

lemma tsc_invocations_strictify:
  "tsc_invocations (fst (strictify e args)) =
     (case snd (excludedFiles e (targetBranch args) (ignoreFilesChangedOnBranch args)) of
        Inl err \<Rightarrow> 0
      | Inr excluded \<Rightarrow>
          if snd (changedFiles e (forkPointOfHEAD e args)) = [] then 0 else 1)"
  by (simp add: strictify_unfold Let_def tsc_invocations_append events_preamble
        events_changedFiles tsc_invocations_correlate split: sum.splits)

lemma onFoundChangedFiles_calls_strictify:
  "onFoundChangedFiles_calls (fst (strictify e args)) =
     (case snd (excludedFiles e (targetBranch args) (ignoreFilesChangedOnBranch args)) of
        Inl err \<Rightarrow> []
      | Inr excluded \<Rightarrow> [snd (changedFiles e (forkPointOfHEAD e args))])"
  by (simp add: strictify_unfold Let_def onFoundChangedFiles_calls_append events_preamble
        onFoundChangedFiles_calls_changedFiles onFoundChangedFiles_calls_correlate
        split: sum.splits)

lemma length_filter_fst_map:
  "distinct xs \<Longrightarrow> f \<in> set xs \<Longrightarrow>
     length (filter (\<lambda>call. fst call = f) (map (\<lambda>g. (g, h g)) xs)) = 1"
  by (induction xs) (auto simp: filter_empty_conv)

lemma distinct_includedChangedFiles:
  "distinct (includedChangedFiles (snd (changedFiles e commit)) excluded)"
  by (simp add: includedChangedFiles_def distinct_changedFiles)

lemma sum_countFor_relevant:
  "(\<Sum>f\<leftarrow>fs. countFor f (filter (\<lambda>line. \<exists>g\<in>set fs. sublist g line) ls)) = (\<Sum>f\<leftarrow>fs. countFor f ls)"
proof -
  have "map (\<lambda>f. countFor f (filter (\<lambda>line. \<exists>g\<in>set fs. sublist g line) ls)) fs
          = map (\<lambda>f. countFor f ls) fs"
    by (rule map_cong) (simp_all add: countFor_filter_relevant)
  then show ?thesis by (rule arg_cong)
qed

subsection \<open>The example runs, evaluated\<close>

lemma example_forkPoint: "forkPointOfHEAD env_example args_example = Some ''abc''"
  by (simp add: forkPointOfHEAD_def env_example_def args_example_def
      findCommitAtWhichTheCurrentBranchForkedFromTargetBranch_def
      findCommitAtWhichBranchForkedFromTargetBranch_def)

lemma example_excluded:
  "snd (excludedFiles env_example (targetBranch args_example)
          (ignoreFilesChangedOnBranch args_example)) = Inr [''l.ts'']"
  by (simp add: env_example_def args_example_def excludedFiles_def
      filesChangedOnBranch_def findCommitAtWhichBranchForkedFromTargetBranch_def
      findFilesFromDiffToRevision_def)

lemma example_changed:
  "snd (changedFiles env_example (Some ''abc'')) = [''n.ts'', ''a.ts'', ''v.tsx'', ''l.ts'']"
  by (simp add: changedFiles_def env_example_def findModifiedAndUntrackedFiles_def
      findFilesFromDiffToRevision_def Array_from_new_Set_def Set_add_def
      isSupportedExtension_def regex_dot_tsx_end_here_def)

lemma example_lines:
  "snd (getTypeScriptCompileOutput env_example (typeScriptOptions args_example)) =
     Inr [''a.ts(3,5): e1'', ''l.ts(1,1): e2'', ''a.ts(9,1): e3'']"
  by (simp add: getTypeScriptCompileOutput_def env_example_def diagnostics_error_def newline_def)

lemma all_excluded_forkPoint: "forkPointOfHEAD env_all_excluded args_example = Some ''abc''"
  by (simp add: forkPointOfHEAD_def env_all_excluded_def args_example_def
      findCommitAtWhichTheCurrentBranchForkedFromTargetBranch_def
      findCommitAtWhichBranchForkedFromTargetBranch_def)

lemma all_excluded_excluded:
  "snd (excludedFiles env_all_excluded (targetBranch args_example)
          (ignoreFilesChangedOnBranch args_example)) = Inr [''a.ts'']"
  by (simp add: env_all_excluded_def args_example_def excludedFiles_def
      filesChangedOnBranch_def findCommitAtWhichBranchForkedFromTargetBranch_def
      findFilesFromDiffToRevision_def)

lemma all_excluded_changed:
  "snd (changedFiles env_all_excluded (Some ''abc'')) = [''a.ts'']"
  by (simp add: changedFiles_def env_all_excluded_def findModifiedAndUntrackedFiles_def
      findFilesFromDiffToRevision_def Array_from_new_Set_def Set_add_def
      isSupportedExtension_def regex_dot_tsx_end_here_def)

lemma all_excluded_lines:
  "snd (getTypeScriptCompileOutput env_all_excluded (typeScriptOptions args_example)) = Inr []"
  by (simp add: getTypeScriptCompileOutput_def env_all_excluded_def)

lemma nothing_changed_forkPoint: "forkPointOfHEAD env_nothing_changed args = None"
  by (simp add: forkPointOfHEAD_def env_nothing_changed_def
      findCommitAtWhichTheCurrentBranchForkedFromTargetBranch_def
      findCommitAtWhichBranchForkedFromTargetBranch_def)

lemma nothing_changed_changed: "snd (changedFiles env_nothing_changed None) = []"
  by (simp add: changedFiles_def env_nothing_changed_def findModifiedAndUntrackedFiles_def
      findFilesFromDiffToRevision_def Array_from_new_Set_def)

lemma nothing_changed_excluded:
  "snd (excludedFiles env_nothing_changed (targetBranch args_example)
          (ignoreFilesChangedOnBranch args_example)) = Inr []"
  by (simp add: env_nothing_changed_def args_example_def excludedFiles_def
      filesChangedOnBranch_def findCommitAtWhichBranchForkedFromTargetBranch_def
      findFilesFromDiffToRevision_def)

lemma no_output_lines:
  "snd (getTypeScriptCompileOutput (e\<lparr>tsc := (\<lambda>args. Rejected no_output_error)\<rparr>) options) =
     Inl Cannot_read_property_split_of_undefined"
  by (simp add: getTypeScriptCompileOutput_def no_output_error_def)

lemma fst_onCheckFile_calls_strictify:
  assumes "snd (excludedFiles e (targetBranch args) (ignoreFilesChangedOnBranch args)) = Inr excluded"
  shows "fst ` set (onCheckFile_calls (fst (strictify e args)))
           \<subseteq> set (includedChangedFiles (snd (changedFiles e (forkPointOfHEAD e args))) excluded)"
proof (cases "snd (changedFiles e (forkPointOfHEAD e args)) = []")
  case True
  with assms show ?thesis by (simp add: onCheckFile_calls_strictify)
next
  case False
  show ?thesis
  proof (cases "snd (getTypeScriptCompileOutput e (typeScriptOptions args))")
    case (Inl err)
    with assms False show ?thesis by (simp add: onCheckFile_calls_strictify)
  next
    case (Inr lines)
    with assms False show ?thesis by (simp add: onCheckFile_calls_strictify image_image)
  qed
qed

lemma errors_strictify:
  assumes "snd (excludedFiles e (targetBranch args) (ignoreFilesChangedOnBranch args)) = Inr excluded"
    and "snd (getTypeScriptCompileOutput e (typeScriptOptions args)) = Inr lines"
    and "snd (strictify e args) = Inr r"
  shows "errors r =
           (\<Sum>f\<leftarrow>includedChangedFiles (snd (changedFiles e (forkPointOfHEAD e args))) excluded.
               countFor f lines)"
proof (cases "snd (changedFiles e (forkPointOfHEAD e args)) = []")
  case True
  with assms show ?thesis by (auto simp: snd_strictify includedChangedFiles_def)
next
  case False
  with assms show ?thesis by (auto simp: snd_strictify)
qed

lemma example_options: "typeScriptOptions args_example = [(''noEmit'', True)]"
  by (simp add: args_example_def)

lemma example_tsc_args: "tsc_args [(''noEmit'', True)] = [Str ''--noEmit'', Bool True]"
  by (simp add: tsc_args_def)

lemma strictify_short_circuit_observed:
  assumes "snd (excludedFiles e (targetBranch args) (ignoreFilesChangedOnBranch args)) = Inr excluded"
    and "snd (changedFiles e (forkPointOfHEAD e args)) = []"
  shows "snd (strictify e args) = Inr \<lparr>success = True, errors = 0\<rparr>"
    and "tsc_invocations (fst (strictify e args)) = 0"
    and "onCheckFile_calls (fst (strictify e args)) = []"
  using assms
  by (simp_all add: snd_strictify tsc_invocations_strictify onCheckFile_calls_strictify)

lemma nothing_changed_run:
  "snd (strictify env_nothing_changed args_example) = Inr \<lparr>success = True, errors = 0\<rparr>"
  "tsc_invocations (fst (strictify env_nothing_changed args_example)) = 0"
  "onCheckFile_calls (fst (strictify env_nothing_changed args_example)) = []"
  using nothing_changed_excluded nothing_changed_changed
  by (simp_all add: strictify_short_circuit_observed nothing_changed_forkPoint)

lemma untouched_lib_forkPoint: "forkPointOfHEAD env_untouched_lib args_example = Some ''abc''"
  by (simp add: forkPointOfHEAD_def env_untouched_lib_def args_example_def
      findCommitAtWhichTheCurrentBranchForkedFromTargetBranch_def
      findCommitAtWhichBranchForkedFromTargetBranch_def)

lemma untouched_lib_excluded:
  "snd (excludedFiles env_untouched_lib (targetBranch args_example)
          (ignoreFilesChangedOnBranch args_example)) = Inr []"
  by (simp add: env_untouched_lib_def args_example_def excludedFiles_def
      filesChangedOnBranch_def findCommitAtWhichBranchForkedFromTargetBranch_def
      findFilesFromDiffToRevision_def)

lemma untouched_lib_changed:
  "snd (changedFiles env_untouched_lib (Some ''abc'')) = [''a.ts'']"
  by (simp add: changedFiles_def env_untouched_lib_def findModifiedAndUntrackedFiles_def
      findFilesFromDiffToRevision_def Array_from_new_Set_def Set_add_def
      isSupportedExtension_def regex_dot_tsx_end_here_def)

lemma untouched_lib_lines:
  "snd (getTypeScriptCompileOutput env_untouched_lib (typeScriptOptions args_example))
     = Inr [''lib/a.ts(1,1): e'']"
  by (simp add: getTypeScriptCompileOutput_def env_untouched_lib_def newline_def)

lemma silent_lines:
  "snd (getTypeScriptCompileOutput (e\<lparr>tsc := (\<lambda>args. Resolved)\<rparr>) options) = Inr []"
  by (simp add: getTypeScriptCompileOutput_def)

lemma excluded_sibling_forkPoint: "forkPointOfHEAD env_excluded_sibling args_example = Some ''abc''"
  by (simp add: forkPointOfHEAD_def env_excluded_sibling_def args_example_def
      findCommitAtWhichTheCurrentBranchForkedFromTargetBranch_def
      findCommitAtWhichBranchForkedFromTargetBranch_def)

lemma excluded_sibling_excluded:
  "snd (excludedFiles env_excluded_sibling (targetBranch args_example)
          (ignoreFilesChangedOnBranch args_example)) = Inr [''b/a.ts'']"
  by (simp add: env_excluded_sibling_def args_example_def excludedFiles_def
      filesChangedOnBranch_def findCommitAtWhichBranchForkedFromTargetBranch_def
      findFilesFromDiffToRevision_def)

lemma excluded_sibling_changed:
  "snd (changedFiles env_excluded_sibling (Some ''abc'')) = [''a.ts'', ''b/a.ts'']"
  by (simp add: changedFiles_def env_excluded_sibling_def findModifiedAndUntrackedFiles_def
      findFilesFromDiffToRevision_def Array_from_new_Set_def Set_add_def
      isSupportedExtension_def regex_dot_tsx_end_here_def)

lemma excluded_sibling_lines:
  "snd (getTypeScriptCompileOutput env_excluded_sibling (typeScriptOptions args_example))
     = Inr [''b/a.ts(3,5): e'']"
  by (simp add: getTypeScriptCompileOutput_def env_excluded_sibling_def newline_def)

lemma example_run:
  "snd (strictify env_example args_example) = Inr \<lparr>success = False, errors = 2\<rparr>"
  by (simp add: snd_strictify example_forkPoint example_excluded example_changed example_lines
        includedChangedFiles_def countFor_def includes_str_sublist [symmetric])

section \<open>The claims\<close>

text \<open>
  Claim C1. With an empty list of branches to ignore, the source does not compute an
  empty exclusion list: \<^verbatim>\<open>Promise.all\<close> yields an empty array, and the \<^verbatim>\<open>reduce\<close>
  of lines 106 to 108, which has no initial value, raises a TypeError. Every such run
  ends there, after the fork-point query and the \<^verbatim>\<open>onFoundSinceRevision\<close> callback,
  whatever the repository and the compiler answer.
\<close>

theorem strictify_without_ignore_branches_throws:
  "strictify e (args\<lparr>ignoreFilesChangedOnBranch := []\<rparr>) =
     ([Exec_git_merge_base (targetBranch args) ''HEAD'',
       OnFoundSinceRevision (git_merge_base_fork_point e (targetBranch args) ''HEAD'')],
      Inl Reduce_of_empty_array_with_no_initial_value)"
  by (simp add: strictify_unfold preamble_def forkPointOfHEAD_def excludedFiles_def
        findCommitAtWhichTheCurrentBranchForkedFromTargetBranch_def
        findCommitAtWhichBranchForkedFromTargetBranch_def)

text \<open>
  Claim C2. The compiler step has three outcomes. When the compiler's promise resolves,
  there are no diagnostic lines. When it is rejected with an error that carries a
  combined output, that output split at the newlines is the sequence of lines, whatever
  the reason of the rejection: the pieces hold no newline and, joined by newlines, give
  the output back. When it is rejected with an error that carries no combined output,
  reading \<^verbatim>\<open>split\<close> of \<^verbatim>\<open>undefined\<close> throws inside the \<^verbatim>\<open>catch\<close>, and every run that
  has come this far ends with that error and returns no result.

  The source does not look at why the promise was rejected, so a failure for a reason
  other than diagnostics is a hard failure only in the third case: in the example
  \<open>env_tsc_crashed\<close> the compiler crashes with the output ``Segmentation fault'', which
  is read as one diagnostic line, and the run returns a result.
\<close>

theorem getTypeScriptCompileOutput_outcomes:
  "(tsc e (tsc_args options) = Resolved \<longrightarrow>
      getTypeScriptCompileOutput e options = ([Exec_tsc (tsc_args options)], Inr []))
   \<and> (\<forall>error out.
         tsc e (tsc_args options) = Rejected error \<and> all_output error = Some out \<longrightarrow>
           getTypeScriptCompileOutput e options
             = ([Exec_tsc (tsc_args options)], Inr (split newline out))
         \<and> concat (map (\<lambda>line. newline # line) (split newline out)) = newline # out
         \<and> (\<forall>line\<in>set (split newline out). newline \<notin> set line))
   \<and> (\<forall>error.
         tsc e (tsc_args options) = Rejected error \<and> all_output error = None \<longrightarrow>
           getTypeScriptCompileOutput e options
             = ([Exec_tsc (tsc_args options)], Inl Cannot_read_property_split_of_undefined)
         \<and> (\<forall>args excluded.
               typeScriptOptions args = options
               \<and> snd (excludedFiles e (targetBranch args) (ignoreFilesChangedOnBranch args))
                   = Inr excluded
               \<and> snd (changedFiles e (forkPointOfHEAD e args)) \<noteq> [] \<longrightarrow>
                 snd (strictify e args) = Inl Cannot_read_property_split_of_undefined))"
proof (intro conjI allI impI ballI)
  assume "tsc e (tsc_args options) = Resolved"
  then show "getTypeScriptCompileOutput e options = ([Exec_tsc (tsc_args options)], Inr [])"
    by (simp add: getTypeScriptCompileOutput_def)
next
  fix error out
  assume "tsc e (tsc_args options) = Rejected error \<and> all_output error = Some out"
  then show "getTypeScriptCompileOutput e options
             = ([Exec_tsc (tsc_args options)], Inr (split newline out))"
    by (simp add: getTypeScriptCompileOutput_def)
  show "concat (map (\<lambda>line. newline # line) (split newline out)) = newline # out"
    by (rule split_unsplit)
  fix line
  assume "line \<in> set (split newline out)"
  then show "newline \<notin> set line"
    by (rule split_pieces)
next
  fix error
  assume rejected: "tsc e (tsc_args options) = Rejected error \<and> all_output error = None"
  then show thrown: "getTypeScriptCompileOutput e options
             = ([Exec_tsc (tsc_args options)], Inl Cannot_read_property_split_of_undefined)"
    by (simp add: getTypeScriptCompileOutput_def)
  fix args excluded
  assume "typeScriptOptions args = options
               \<and> snd (excludedFiles e (targetBranch args) (ignoreFilesChangedOnBranch args))
                   = Inr excluded
               \<and> snd (changedFiles e (forkPointOfHEAD e args)) \<noteq> []"
  with thrown show "snd (strictify e args) = Inl Cannot_read_property_split_of_undefined"
    by (auto simp: snd_strictify)
qed

theorem getTypeScriptCompileOutput_outcomes_witness:
  "tsc env_all_excluded (tsc_args [(''noEmit'', True)]) = Resolved
   \<and> getTypeScriptCompileOutput env_all_excluded [(''noEmit'', True)]
       = ([Exec_tsc [Str ''--noEmit'', Bool True]], Inr [])
   \<and> tsc env_example (tsc_args [(''noEmit'', True)]) = Rejected diagnostics_error
   \<and> all_output diagnostics_error
       = Some (''a.ts(3,5): e1'' @ [newline] @ ''l.ts(1,1): e2'' @ [newline] @ ''a.ts(9,1): e3'')
   \<and> getTypeScriptCompileOutput env_example [(''noEmit'', True)]
       = ([Exec_tsc [Str ''--noEmit'', Bool True]],
          Inr [''a.ts(3,5): e1'', ''l.ts(1,1): e2'', ''a.ts(9,1): e3''])
   \<and> tsc env_tsc_no_output (tsc_args [(''noEmit'', True)]) = Rejected no_output_error
   \<and> all_output no_output_error = None
   \<and> getTypeScriptCompileOutput env_tsc_no_output [(''noEmit'', True)]
       = ([Exec_tsc [Str ''--noEmit'', Bool True]], Inl Cannot_read_property_split_of_undefined)
   \<and> typeScriptOptions args_example = [(''noEmit'', True)]
   \<and> snd (excludedFiles env_tsc_no_output (targetBranch args_example)
            (ignoreFilesChangedOnBranch args_example)) = Inr [''l.ts'']
   \<and> snd (changedFiles env_tsc_no_output (forkPointOfHEAD env_tsc_no_output args_example)) \<noteq> []
   \<and> snd (strictify env_tsc_no_output args_example) = Inl Cannot_read_property_split_of_undefined"
proof -
  have r1: "tsc env_all_excluded (tsc_args [(''noEmit'', True)]) = Resolved"
    by (simp add: env_all_excluded_def)
  have r2: "tsc env_example (tsc_args [(''noEmit'', True)]) = Rejected diagnostics_error
      \<and> all_output diagnostics_error
          = Some (''a.ts(3,5): e1'' @ [newline] @ ''l.ts(1,1): e2'' @ [newline] @ ''a.ts(9,1): e3'')"
    by (simp add: env_example_def diagnostics_error_def)
  have r3: "tsc env_tsc_no_output (tsc_args [(''noEmit'', True)]) = Rejected no_output_error
      \<and> all_output no_output_error = None"
    by (simp add: env_tsc_no_output_def no_output_error_def)
  have excluded: "snd (excludedFiles env_tsc_no_output (targetBranch args_example)
            (ignoreFilesChangedOnBranch args_example)) = Inr [''l.ts'']"
    by (simp add: env_tsc_no_output_def tsc_update_frame example_excluded)
  have changed: "snd (changedFiles env_tsc_no_output (forkPointOfHEAD env_tsc_no_output args_example)) \<noteq> []"
    by (simp add: env_tsc_no_output_def tsc_update_frame example_forkPoint example_changed)
  note o1 = getTypeScriptCompileOutput_outcomes [of env_all_excluded "[(''noEmit'', True)]",
      THEN conjunct1, rule_format, OF r1]
  note o2 = getTypeScriptCompileOutput_outcomes [of env_example "[(''noEmit'', True)]",
      THEN conjunct2, THEN conjunct1, rule_format, OF r2, THEN conjunct1]
  note o3 = getTypeScriptCompileOutput_outcomes [of env_tsc_no_output "[(''noEmit'', True)]",
      THEN conjunct2, THEN conjunct2, rule_format, OF r3]
  note o4 = o3 [THEN conjunct2, rule_format, OF conjI [OF example_options conjI [OF excluded changed]]]
  have l2: "split newline (''a.ts(3,5): e1'' @ [newline] @ ''l.ts(1,1): e2'' @ [newline] @ ''a.ts(9,1): e3'')
      = [''a.ts(3,5): e1'', ''l.ts(1,1): e2'', ''a.ts(9,1): e3'']"
    by (simp add: newline_def)
  have c1: "getTypeScriptCompileOutput env_all_excluded [(''noEmit'', True)]
       = ([Exec_tsc [Str ''--noEmit'', Bool True]], Inr [])"
    using o1 by (simp only: example_tsc_args)
  have c2: "getTypeScriptCompileOutput env_example [(''noEmit'', True)]
       = ([Exec_tsc [Str ''--noEmit'', Bool True]],
          Inr [''a.ts(3,5): e1'', ''l.ts(1,1): e2'', ''a.ts(9,1): e3''])"
    using o2 by (simp only: example_tsc_args l2)
  have c3: "getTypeScriptCompileOutput env_tsc_no_output [(''noEmit'', True)]
       = ([Exec_tsc [Str ''--noEmit'', Bool True]], Inl Cannot_read_property_split_of_undefined)"
    using o3 [THEN conjunct1] by (simp only: example_tsc_args)
  show ?thesis
    using r1 c1 r2 [THEN conjunct1] r2 [THEN conjunct2] c2 r3 [THEN conjunct1] r3 [THEN conjunct2]
      c3 example_options excluded changed o4
    by (intro conjI)
qed

theorem compiler_crash_is_read_as_diagnostics:
  "tsc env_tsc_crashed (tsc_args (typeScriptOptions args_example)) = Rejected crash_error
   \<and> reason crash_error = OtherFailure
   \<and> getTypeScriptCompileOutput env_tsc_crashed (typeScriptOptions args_example)
       = ([Exec_tsc [Str ''--noEmit'', Bool True]], Inr [''Segmentation fault''])
   \<and> snd (strictify env_tsc_crashed args_example) = Inr \<lparr>success = True, errors = 0\<rparr>"
proof -
  have lines: "getTypeScriptCompileOutput env_tsc_crashed (typeScriptOptions args_example)
       = ([Exec_tsc [Str ''--noEmit'', Bool True]], Inr [''Segmentation fault''])"
    by (simp add: getTypeScriptCompileOutput_def env_tsc_crashed_def crash_error_def newline_def
          example_options example_tsc_args)
  have "snd (strictify env_tsc_crashed args_example) = Inr \<lparr>success = True, errors = 0\<rparr>"
    using lines
    by (simp add: snd_strictify env_tsc_crashed_def tsc_update_frame example_excluded
          example_forkPoint example_changed includedChangedFiles_def countFor_def
          includes_str_sublist [symmetric])
  with lines show ?thesis
    by (simp add: env_tsc_crashed_def crash_error_def)
qed

text \<open>
  Claim C3. In every run that reaches the correlation stage (the exclusion list was
  computed, the filtered change set is not empty and the compiler step returned its
  lines), a result is returned whose \<^verbatim>\<open>errors\<close> field is the sum, over the included
  changed files, of \<open>countFor\<close>: the number of lines that contain the file's path as a
  substring. A line is counted once for each included file whose path it contains,
  whichever file the compiler reported it for. Lines that contain the path of no
  included file are not counted: leaving them out of the compiler's output gives the
  same sum. A line reported for a file that is not included is counted all the same
  when it contains an included path: in the example \<open>env_untouched_lib\<close> the only
  line is reported for \<^verbatim>\<open>lib/a.ts\<close>, which did not change, and it is counted for the
  included \<^verbatim>\<open>a.ts\<close>.
\<close>

theorem strictify_errors_is_sum_of_countFor:
  assumes "snd (excludedFiles e (targetBranch args) (ignoreFilesChangedOnBranch args)) = Inr excluded"
    and "snd (changedFiles e (forkPointOfHEAD e args)) = changed"
    and "changed \<noteq> []"
    and "snd (getTypeScriptCompileOutput e (typeScriptOptions args)) = Inr lines"
  shows "\<exists>r. snd (strictify e args) = Inr r
           \<and> errors r = (\<Sum>f\<leftarrow>includedChangedFiles changed excluded. countFor f lines)
           \<and> errors r =
               (\<Sum>f\<leftarrow>includedChangedFiles changed excluded.
                  countFor f
                    (filter (\<lambda>line. \<exists>g\<in>set (includedChangedFiles changed excluded). sublist g line)
                       lines))"
  using assms by (simp add: snd_strictify sum_countFor_relevant)

theorem strictify_errors_is_sum_of_countFor_witness:
  "snd (excludedFiles env_example (targetBranch args_example)
          (ignoreFilesChangedOnBranch args_example)) = Inr [''l.ts'']
   \<and> snd (changedFiles env_example (forkPointOfHEAD env_example args_example))
       = [''n.ts'', ''a.ts'', ''v.tsx'', ''l.ts'']
   \<and> snd (getTypeScriptCompileOutput env_example (typeScriptOptions args_example))
       = Inr [''a.ts(3,5): e1'', ''l.ts(1,1): e2'', ''a.ts(9,1): e3'']
   \<and> includedChangedFiles [''n.ts'', ''a.ts'', ''v.tsx'', ''l.ts''] [''l.ts''] = [''n.ts'', ''a.ts'', ''v.tsx'']
   \<and> (\<exists>r. snd (strictify env_example args_example) = Inr r
          \<and> errors r = (\<Sum>f\<leftarrow>[''n.ts'', ''a.ts'', ''v.tsx''].
                           countFor f [''a.ts(3,5): e1'', ''l.ts(1,1): e2'', ''a.ts(9,1): e3''])
          \<and> errors r = 2)"
proof -
  have changed: "snd (changedFiles env_example (forkPointOfHEAD env_example args_example))
       = [''n.ts'', ''a.ts'', ''v.tsx'', ''l.ts'']"
    by (simp add: example_forkPoint example_changed)
  have included: "includedChangedFiles [''n.ts'', ''a.ts'', ''v.tsx'', ''l.ts''] [''l.ts'']
       = [''n.ts'', ''a.ts'', ''v.tsx'']"
    by (simp add: includedChangedFiles_def)
  from strictify_errors_is_sum_of_countFor [OF example_excluded changed _ example_lines]
  obtain r where "snd (strictify env_example args_example) = Inr r"
    and "errors r = (\<Sum>f\<leftarrow>includedChangedFiles [''n.ts'', ''a.ts'', ''v.tsx'', ''l.ts''] [''l.ts''].
                        countFor f [''a.ts(3,5): e1'', ''l.ts(1,1): e2'', ''a.ts(9,1): e3''])"
    by auto
  then show ?thesis
    using example_excluded changed example_lines included example_run by auto
qed

theorem line_of_untouched_file_is_counted:
  "snd (excludedFiles env_untouched_lib (targetBranch args_example)
          (ignoreFilesChangedOnBranch args_example)) = Inr []
   \<and> snd (changedFiles env_untouched_lib (forkPointOfHEAD env_untouched_lib args_example)) = [''a.ts'']
   \<and> includedChangedFiles [''a.ts''] [] = [''a.ts'']
   \<and> snd (getTypeScriptCompileOutput env_untouched_lib (typeScriptOptions args_example))
       = Inr [''lib/a.ts(1,1): e'']
   \<and> ''lib/a.ts'' \<notin> set (includedChangedFiles [''a.ts''] [])
   \<and> sublist ''lib/a.ts'' ''lib/a.ts(1,1): e''
   \<and> snd (strictify env_untouched_lib args_example) = Inr \<lparr>success = False, errors = 1\<rparr>
   \<and> snd (strictify env_untouched_lib_silent args_example) = Inr \<lparr>success = True, errors = 0\<rparr>"
proof -
  have changed: "snd (changedFiles env_untouched_lib (forkPointOfHEAD env_untouched_lib args_example))
      = [''a.ts'']"
    by (simp add: untouched_lib_forkPoint untouched_lib_changed)
  have included: "includedChangedFiles [''a.ts''] [] = [''a.ts'']"
    by (simp add: includedChangedFiles_def)
  have notin: "''lib/a.ts'' \<notin> set (includedChangedFiles [''a.ts''] [])"
    by (simp add: includedChangedFiles_def)
  have names: "sublist ''lib/a.ts'' ''lib/a.ts(1,1): e''"
    by (simp add: includes_str_sublist [symmetric])
  have run: "snd (strictify env_untouched_lib args_example) = Inr \<lparr>success = False, errors = 1\<rparr>"
    by (simp add: snd_strictify untouched_lib_excluded changed untouched_lib_lines included
          countFor_def includes_str_sublist [symmetric])
  have silent: "snd (strictify env_untouched_lib_silent args_example)
      = Inr \<lparr>success = True, errors = 0\<rparr>"
    by (simp add: snd_strictify env_untouched_lib_silent_def tsc_update_frame silent_lines
          untouched_lib_excluded changed included countFor_def)
  show ?thesis
    using untouched_lib_excluded changed included untouched_lib_lines notin names run silent
    by (intro conjI)
qed

text \<open>
  Claim C4. Whenever the entrypoint returns a result, its \<^verbatim>\<open>success\<close> field is true
  exactly when its \<^verbatim>\<open>errors\<close> field is zero.
\<close>

theorem strictify_success_iff_no_errors:
  "snd (strictify e args) = Inr r \<Longrightarrow> success r = (errors r = 0)"
  by (auto simp: snd_strictify split: sum.splits if_splits)

theorem strictify_success_iff_no_errors_witness:
  "snd (strictify env_example args_example) = Inr \<lparr>success = False, errors = 2\<rparr>
   \<and> success \<lparr>success = False, errors = 2\<rparr> = (errors \<lparr>success = False, errors = 2\<rparr> = 0)"
  using strictify_success_iff_no_errors [OF example_run] example_run by simp

text \<open>
  Claim C5. In a repository where nothing changed, the filtered change set is empty; with
  no branch to ignore the run nevertheless does not return
  \<^verbatim>\<open>{success: true, errors: 0}\<close>: it throws in the \<^verbatim>\<open>reduce\<close> of lines 106 to 108,
  before line 116 is reached. (With at least one branch to ignore, lemma
  \<open>strictify_short_circuit_observed\<close> gives what the claim states, and
  \<open>nothing_changed_run\<close> shows it for this repository.)
\<close>

theorem strictify_nothing_changed_without_ignore_branches:
  "snd (changedFiles env_nothing_changed (forkPointOfHEAD env_nothing_changed args_no_ignore)) = []
   \<and> strictify env_nothing_changed args_no_ignore =
       ([Exec_git_merge_base ''master'' ''HEAD'', OnFoundSinceRevision None],
        Inl Reduce_of_empty_array_with_no_initial_value)"
  by (simp add: nothing_changed_forkPoint nothing_changed_changed strictify_unfold preamble_def
        args_no_ignore_def args_example_def excludedFiles_def)

text \<open>
  Claim C6. With an unknown base revision, \<^verbatim>\<open>findFilesFromDiffToRevision\<close> returns
  the empty list for every child revision; it asks git for no diff summary and logs
  nothing (its list of events is empty), and it has no failing outcome.
\<close>

theorem findFilesFromDiffToRevision_unknown_base:
  "findFilesFromDiffToRevision e None childRevision = ([], [])"
  by (simp add: findFilesFromDiffToRevision_def)

text \<open>
  Claim C7. In every run that computes an exclusion list, the included files are the
  filtered change set minus the exclusion list, so no included file is excluded; every
  \<^verbatim>\<open>onCheckFile\<close> call is for a changed file that is not excluded; and the
  \<^verbatim>\<open>errors\<close> of a returned result is a sum over the changed files that are not
  excluded, so that an excluded file is none of the files whose matches are counted.
  A run that computes no exclusion list (the \<^verbatim>\<open>reduce\<close> of line 106 threw) makes no
  \<^verbatim>\<open>onCheckFile\<close> call and returns no result.

  The lines reported for an excluded file are not thereby left out of the count: in
  the example \<open>env_excluded_sibling\<close> the file \<^verbatim>\<open>b/a.ts\<close> is changed and excluded,
  and the line the compiler reports for it contains the path of the included
  \<^verbatim>\<open>a.ts\<close> and is counted for that file.
\<close>

theorem excluded_files_are_not_checked:
  "(\<forall>err. snd (excludedFiles e (targetBranch args) (ignoreFilesChangedOnBranch args)) = Inl err \<longrightarrow>
      snd (strictify e args) = Inl err \<and> onCheckFile_calls (fst (strictify e args)) = [])
   \<and> (\<forall>excluded changed.
         snd (excludedFiles e (targetBranch args) (ignoreFilesChangedOnBranch args)) = Inr excluded
         \<and> snd (changedFiles e (forkPointOfHEAD e args)) = changed \<longrightarrow>
           set (includedChangedFiles changed excluded) = set changed - set excluded
         \<and> set (includedChangedFiles changed excluded) \<inter> set excluded = {}
         \<and> fst ` set (onCheckFile_calls (fst (strictify e args))) \<subseteq> set changed - set excluded
         \<and> (\<forall>r lines.
               snd (strictify e args) = Inr r
               \<and> snd (getTypeScriptCompileOutput e (typeScriptOptions args)) = Inr lines \<longrightarrow>
                 errors r = (\<Sum>f\<leftarrow>filter (\<lambda>f. f \<notin> set excluded) changed. countFor f lines)))"
proof (intro conjI allI impI)
  fix err
  assume "snd (excludedFiles e (targetBranch args) (ignoreFilesChangedOnBranch args)) = Inl err"
  then show "snd (strictify e args) = Inl err" and "onCheckFile_calls (fst (strictify e args)) = []"
    by (simp_all add: snd_strictify onCheckFile_calls_strictify)
next
  fix excluded changed
  assume h: "snd (excludedFiles e (targetBranch args) (ignoreFilesChangedOnBranch args)) = Inr excluded
         \<and> snd (changedFiles e (forkPointOfHEAD e args)) = changed"
  show "set (includedChangedFiles changed excluded) = set changed - set excluded"
    by (rule set_includedChangedFiles)
  show "set (includedChangedFiles changed excluded) \<inter> set excluded = {}"
    unfolding set_includedChangedFiles by (rule Diff_disjoint [THEN trans [OF Int_commute]])
  show "fst ` set (onCheckFile_calls (fst (strictify e args))) \<subseteq> set changed - set excluded"
    using h fst_onCheckFile_calls_strictify [of e args excluded]
    by (simp add: set_includedChangedFiles)
  fix r lines
  assume "snd (strictify e args) = Inr r
               \<and> snd (getTypeScriptCompileOutput e (typeScriptOptions args)) = Inr lines"
  with h errors_strictify [of e args excluded lines r]
  show "errors r = (\<Sum>f\<leftarrow>filter (\<lambda>f. f \<notin> set excluded) changed. countFor f lines)"
    by (simp add: includedChangedFiles_def)
qed

theorem excluded_files_are_not_checked_witness:
  "snd (excludedFiles env_example (targetBranch args_example)
          (ignoreFilesChangedOnBranch args_example)) = Inr [''l.ts'']
   \<and> snd (changedFiles env_example (forkPointOfHEAD env_example args_example))
       = [''n.ts'', ''a.ts'', ''v.tsx'', ''l.ts'']
   \<and> set (includedChangedFiles [''n.ts'', ''a.ts'', ''v.tsx'', ''l.ts''] [''l.ts''])
       = set [''n.ts'', ''a.ts'', ''v.tsx'', ''l.ts''] - set [''l.ts'']
   \<and> ''l.ts'' \<notin> fst ` set (onCheckFile_calls (fst (strictify env_example args_example)))
   \<and> snd (strictify env_example args_example) = Inr \<lparr>success = False, errors = 2\<rparr>
   \<and> snd (getTypeScriptCompileOutput env_example (typeScriptOptions args_example))
       = Inr [''a.ts(3,5): e1'', ''l.ts(1,1): e2'', ''a.ts(9,1): e3'']
   \<and> errors \<lparr>success = False, errors = 2\<rparr>
       = (\<Sum>f\<leftarrow>filter (\<lambda>f. f \<notin> set [''l.ts'']) [''n.ts'', ''a.ts'', ''v.tsx'', ''l.ts''].
            countFor f [''a.ts(3,5): e1'', ''l.ts(1,1): e2'', ''a.ts(9,1): e3''])"
proof -
  have changed: "snd (changedFiles env_example (forkPointOfHEAD env_example args_example))
       = [''n.ts'', ''a.ts'', ''v.tsx'', ''l.ts'']"
    by (simp add: example_forkPoint example_changed)
  note inst = excluded_files_are_not_checked [of env_example args_example,
      THEN conjunct2, rule_format, OF conjI [OF example_excluded changed]]
  note sub = inst [THEN conjunct2, THEN conjunct2, THEN conjunct1]
  note errs = inst [THEN conjunct2, THEN conjunct2, THEN conjunct2, rule_format,
      OF conjI [OF example_run example_lines]]
  have "''l.ts'' \<notin> set [''n.ts'', ''a.ts'', ''v.tsx'', ''l.ts''] - set [''l.ts'']"
    by simp
  with sub have notin: "''l.ts'' \<notin> fst ` set (onCheckFile_calls (fst (strictify env_example args_example)))"
    by (rule contra_subsetD)
  show ?thesis
    using example_excluded changed inst [THEN conjunct1] notin example_run example_lines errs
    by (intro conjI)
qed

theorem line_of_excluded_file_is_counted:
  "snd (excludedFiles env_excluded_sibling (targetBranch args_example)
          (ignoreFilesChangedOnBranch args_example)) = Inr [''b/a.ts'']
   \<and> snd (changedFiles env_excluded_sibling (forkPointOfHEAD env_excluded_sibling args_example))
       = [''a.ts'', ''b/a.ts'']
   \<and> ''b/a.ts'' \<in> set [''a.ts'', ''b/a.ts''] \<inter> set [''b/a.ts'']
   \<and> includedChangedFiles [''a.ts'', ''b/a.ts''] [''b/a.ts''] = [''a.ts'']
   \<and> snd (getTypeScriptCompileOutput env_excluded_sibling (typeScriptOptions args_example))
       = Inr [''b/a.ts(3,5): e'']
   \<and> sublist ''b/a.ts'' ''b/a.ts(3,5): e''
   \<and> onCheckFile_calls (fst (strictify env_excluded_sibling args_example)) = [(''a.ts'', True)]
   \<and> snd (strictify env_excluded_sibling args_example) = Inr \<lparr>success = False, errors = 1\<rparr>
   \<and> snd (strictify env_excluded_sibling_silent args_example)
       = Inr \<lparr>success = True, errors = 0\<rparr>"
proof -
  have changed: "snd (changedFiles env_excluded_sibling (forkPointOfHEAD env_excluded_sibling args_example))
       = [''a.ts'', ''b/a.ts'']"
    by (simp add: excluded_sibling_forkPoint excluded_sibling_changed)
  have both: "''b/a.ts'' \<in> set [''a.ts'', ''b/a.ts''] \<inter> set [''b/a.ts'']"
    by simp
  have included: "includedChangedFiles [''a.ts'', ''b/a.ts''] [''b/a.ts''] = [''a.ts'']"
    by (simp add: includedChangedFiles_def)
  have names: "sublist ''b/a.ts'' ''b/a.ts(3,5): e''"
    by (simp add: includes_str_sublist [symmetric])
  have calls: "onCheckFile_calls (fst (strictify env_excluded_sibling args_example)) = [(''a.ts'', True)]"
    by (simp add: onCheckFile_calls_strictify excluded_sibling_excluded changed
          excluded_sibling_lines included countFor_def includes_str_sublist [symmetric])
  have run: "snd (strictify env_excluded_sibling args_example) = Inr \<lparr>success = False, errors = 1\<rparr>"
    by (simp add: snd_strictify excluded_sibling_excluded changed excluded_sibling_lines included
          countFor_def includes_str_sublist [symmetric])
  have silent: "snd (strictify env_excluded_sibling_silent args_example)
      = Inr \<lparr>success = True, errors = 0\<rparr>"
    by (simp add: snd_strictify env_excluded_sibling_silent_def tsc_update_frame silent_lines
          excluded_sibling_excluded changed included countFor_def)
  show ?thesis
    using excluded_sibling_excluded changed both included excluded_sibling_lines names calls run
      silent
    by (intro conjI)
qed

text \<open>
  Claim C8. The change set of lines 110 to 113 has no path twice; its paths are exactly
  the paths of the working-tree files and of the diff to HEAD that end in
  \<^verbatim>\<open>.ts\<close> or \<^verbatim>\<open>.tsx\<close>, so each of them has such a suffix; and whenever a run
  calls \<^verbatim>\<open>onFoundChangedFiles\<close>, it passes this list, computed from the fork point
  of HEAD.
\<close>

theorem changedFiles_is_filtered_duplicate_free_union:
  "distinct (snd (changedFiles e commit))
   \<and> set (snd (changedFiles e commit)) =
       {f \<in> set (snd (findModifiedAndUntrackedFiles e))
              \<union> set (snd (findFilesFromDiffToRevision e commit ''HEAD'')).
          suffix ''.ts'' f \<or> suffix ''.tsx'' f}
   \<and> (\<forall>f\<in>set (snd (changedFiles e commit)). suffix ''.ts'' f \<or> suffix ''.tsx'' f)
   \<and> (\<forall>changed\<in>set (onFoundChangedFiles_calls (fst (strictify e args))).
         changed = snd (changedFiles e (forkPointOfHEAD e args)))"
proof (intro conjI)
  show "distinct (snd (changedFiles e commit))"
    by (rule distinct_changedFiles)
  show eq: "set (snd (changedFiles e commit)) =
       {f \<in> set (snd (findModifiedAndUntrackedFiles e))
              \<union> set (snd (findFilesFromDiffToRevision e commit ''HEAD'')).
          suffix ''.ts'' f \<or> suffix ''.tsx'' f}"
    by (simp add: set_changedFiles isSupportedExtension_iff)
  show "\<forall>f\<in>set (snd (changedFiles e commit)). suffix ''.ts'' f \<or> suffix ''.tsx'' f"
    unfolding eq by simp
  show "\<forall>changed\<in>set (onFoundChangedFiles_calls (fst (strictify e args))).
         changed = snd (changedFiles e (forkPointOfHEAD e args))"
    by (simp add: onFoundChangedFiles_calls_strictify split: sum.splits)
qed

theorem changedFiles_is_filtered_duplicate_free_union_witness:
  "snd (findModifiedAndUntrackedFiles env_example) = [''n.ts'', ''a.ts'', ''R.md'', ''v.tsx'']
   \<and> snd (findFilesFromDiffToRevision env_example (Some ''abc'') ''HEAD'') = [''a.ts'', ''l.ts'']
   \<and> snd (changedFiles env_example (Some ''abc'')) = [''n.ts'', ''a.ts'', ''v.tsx'', ''l.ts'']
   \<and> distinct (snd (changedFiles env_example (Some ''abc'')))
   \<and> ''v.tsx'' \<in> set (snd (changedFiles env_example (Some ''abc'')))
   \<and> (suffix ''.ts'' ''v.tsx'' \<or> suffix ''.tsx'' ''v.tsx'')
   \<and> onFoundChangedFiles_calls (fst (strictify env_example args_example))
       = [[''n.ts'', ''a.ts'', ''v.tsx'', ''l.ts'']]"
proof -
  note inst = changedFiles_is_filtered_duplicate_free_union
                [of env_example "Some ''abc''" args_example]
  have status: "snd (findModifiedAndUntrackedFiles env_example) = [''n.ts'', ''a.ts'', ''R.md'', ''v.tsx'']"
    by (simp add: findModifiedAndUntrackedFiles_def env_example_def)
  have diff: "snd (findFilesFromDiffToRevision env_example (Some ''abc'') ''HEAD'') = [''a.ts'', ''l.ts'']"
    by (simp add: findFilesFromDiffToRevision_def env_example_def)
  have mem: "''v.tsx'' \<in> set (snd (changedFiles env_example (Some ''abc'')))"
    by (simp add: example_changed)
  from inst [THEN conjunct2, THEN conjunct2, THEN conjunct1] mem
  have ext: "suffix ''.ts'' ''v.tsx'' \<or> suffix ''.tsx'' ''v.tsx''"
    by (rule bspec)
  have calls: "onFoundChangedFiles_calls (fst (strictify env_example args_example))
       = [[''n.ts'', ''a.ts'', ''v.tsx'', ''l.ts'']]"
    by (simp add: onFoundChangedFiles_calls_strictify example_excluded example_forkPoint
          example_changed)
  show ?thesis
    using status diff example_changed inst [THEN conjunct1] mem ext calls
    by (intro conjI)
qed

text \<open>
  Claim C9. In every run that reaches the correlation stage, the \<^verbatim>\<open>onCheckFile\<close>
  calls of the run are, in order, one call for each included file, whose boolean says
  whether some line of the compiler's output contains the file's path; so each included
  file is reported exactly once, with \<^verbatim>\<open>false\<close> when no line matches it.
\<close>

theorem one_onCheckFile_call_per_included_file:
  assumes "snd (excludedFiles e (targetBranch args) (ignoreFilesChangedOnBranch args)) = Inr excluded"
    and "snd (changedFiles e (forkPointOfHEAD e args)) = changed"
    and "changed \<noteq> []"
    and "snd (getTypeScriptCompileOutput e (typeScriptOptions args)) = Inr lines"
  shows "onCheckFile_calls (fst (strictify e args)) =
           map (\<lambda>f. (f, \<exists>line\<in>set lines. sublist f line)) (includedChangedFiles changed excluded)
         \<and> (\<forall>f\<in>set (includedChangedFiles changed excluded).
               length (filter (\<lambda>call. fst call = f) (onCheckFile_calls (fst (strictify e args)))) = 1)"
proof -
  have calls: "onCheckFile_calls (fst (strictify e args)) =
           map (\<lambda>f. (f, \<exists>line\<in>set lines. sublist f line)) (includedChangedFiles changed excluded)"
    using assms by (simp add: onCheckFile_calls_strictify countFor_pos_iff)
  have "distinct (includedChangedFiles changed excluded)"
    using assms(2) distinct_includedChangedFiles [of e "forkPointOfHEAD e args" excluded] by simp
  then have "\<forall>f\<in>set (includedChangedFiles changed excluded).
               length (filter (\<lambda>call. fst call = f)
                 (map (\<lambda>f. (f, \<exists>line\<in>set lines. sublist f line))
                    (includedChangedFiles changed excluded))) = 1"
    using length_filter_fst_map [where h = "\<lambda>f. \<exists>line\<in>set lines. sublist f line"]
    by blast
  with calls show ?thesis by simp
qed

theorem one_onCheckFile_call_per_included_file_witness:
  "snd (excludedFiles env_example (targetBranch args_example)
          (ignoreFilesChangedOnBranch args_example)) = Inr [''l.ts'']
   \<and> snd (changedFiles env_example (forkPointOfHEAD env_example args_example))
       = [''n.ts'', ''a.ts'', ''v.tsx'', ''l.ts'']
   \<and> snd (getTypeScriptCompileOutput env_example (typeScriptOptions args_example))
       = Inr [''a.ts(3,5): e1'', ''l.ts(1,1): e2'', ''a.ts(9,1): e3'']
   \<and> onCheckFile_calls (fst (strictify env_example args_example))
       = [(''n.ts'', False), (''a.ts'', True), (''v.tsx'', False)]
   \<and> length (filter (\<lambda>call. fst call = ''a.ts'')
         (onCheckFile_calls (fst (strictify env_example args_example)))) = 1"
proof -
  have changed: "snd (changedFiles env_example (forkPointOfHEAD env_example args_example))
       = [''n.ts'', ''a.ts'', ''v.tsx'', ''l.ts'']"
    by (simp add: example_forkPoint example_changed)
  have nonempty: "[''n.ts'', ''a.ts'', ''v.tsx'', ''l.ts''] \<noteq> []"
    by simp
  note one = one_onCheckFile_call_per_included_file
                [OF example_excluded changed nonempty example_lines]
  have calls: "onCheckFile_calls (fst (strictify env_example args_example))
       = [(''n.ts'', False), (''a.ts'', True), (''v.tsx'', False)]"
    using one by (simp add: includedChangedFiles_def includes_str_sublist [symmetric])
  have "''a.ts'' \<in> set (includedChangedFiles [''n.ts'', ''a.ts'', ''v.tsx'', ''l.ts''] [''l.ts''])"
    by (simp add: includedChangedFiles_def)
  with one have "length (filter (\<lambda>call. fst call = ''a.ts'')
         (onCheckFile_calls (fst (strictify env_example args_example)))) = 1"
    by blast
  with calls example_excluded changed example_lines show ?thesis by blast
qed

text \<open>
  Claim C10. When the filtered change set is not empty and each of its files is in the
  exclusion list, the compiler is run exactly once and \<^verbatim>\<open>onCheckFile\<close> is never
  called. The result is \<^verbatim>\<open>{success: true, errors: 0}\<close> when the compiler step
  returns its lines; when the compiler step throws (see claim C2), the run ends with
  that error instead, as in the example \<open>env_all_excluded_tsc_no_output\<close>.
\<close>

theorem all_changed_files_excluded:
  assumes "snd (excludedFiles e (targetBranch args) (ignoreFilesChangedOnBranch args)) = Inr excluded"
    and "snd (changedFiles e (forkPointOfHEAD e args)) = changed"
    and "changed \<noteq> []"
    and "set changed \<subseteq> set excluded"
  shows "tsc_invocations (fst (strictify e args)) = 1
         \<and> onCheckFile_calls (fst (strictify e args)) = []
         \<and> (case snd (getTypeScriptCompileOutput e (typeScriptOptions args)) of
              Inr lines \<Rightarrow> snd (strictify e args) = Inr \<lparr>success = True, errors = 0\<rparr>
            | Inl err \<Rightarrow> snd (strictify e args) = Inl err)"
proof -
  have "set (includedChangedFiles changed excluded) = {}"
    using assms(4) by (auto simp: set_includedChangedFiles)
  then have none: "includedChangedFiles changed excluded = []"
    by simp
  show ?thesis
    using assms(1-3) none
    by (simp add: tsc_invocations_strictify onCheckFile_calls_strictify snd_strictify
          split: sum.splits)
qed

theorem all_changed_files_excluded_witness:
  "snd (excludedFiles env_all_excluded (targetBranch args_example)
          (ignoreFilesChangedOnBranch args_example)) = Inr [''a.ts'']
   \<and> snd (changedFiles env_all_excluded (forkPointOfHEAD env_all_excluded args_example)) = [''a.ts'']
   \<and> [''a.ts''] \<noteq> []
   \<and> set [''a.ts''] \<subseteq> set [''a.ts'']
   \<and> tsc_invocations (fst (strictify env_all_excluded args_example)) = 1
   \<and> onCheckFile_calls (fst (strictify env_all_excluded args_example)) = []
   \<and> snd (strictify env_all_excluded args_example) = Inr \<lparr>success = True, errors = 0\<rparr>"
proof -
  have changed: "snd (changedFiles env_all_excluded (forkPointOfHEAD env_all_excluded args_example))
       = [''a.ts'']"
    by (simp add: all_excluded_forkPoint all_excluded_changed)
  have nonempty: "[''a.ts''] \<noteq> []" and sub: "set [''a.ts''] \<subseteq> set [''a.ts'']"
    by simp_all
  note inst = all_changed_files_excluded [OF all_excluded_excluded changed nonempty sub]
  have result: "snd (strictify env_all_excluded args_example) = Inr \<lparr>success = True, errors = 0\<rparr>"
    using inst [THEN conjunct2, THEN conjunct2] by (simp add: all_excluded_lines)
  show ?thesis
    using all_excluded_excluded changed nonempty sub inst [THEN conjunct1]
      inst [THEN conjunct2, THEN conjunct1] result
    by (intro conjI)
qed

theorem all_changed_files_excluded_compiler_throws:
  "snd (excludedFiles env_all_excluded_tsc_no_output (targetBranch args_example)
          (ignoreFilesChangedOnBranch args_example)) = Inr [''a.ts'']
   \<and> snd (changedFiles env_all_excluded_tsc_no_output
            (forkPointOfHEAD env_all_excluded_tsc_no_output args_example)) = [''a.ts'']
   \<and> snd (strictify env_all_excluded_tsc_no_output args_example)
       = Inl Cannot_read_property_split_of_undefined"
  by (simp add: env_all_excluded_tsc_no_output_def tsc_update_frame all_excluded_excluded
        all_excluded_forkPoint all_excluded_changed snd_strictify no_output_lines)

end
